theory Spec2Isabelle
  imports Main
begin

section \<open>The selscan wrapper \<^verbatim>\<open>adhoc_runxp.py\<close>\<close>

text \<open>
  The source is one Python script: a module constant \<^verbatim>\<open>basecmd\<close>, a function
  \<^verbatim>\<open>main\<close> and the module-level call \<^verbatim>\<open>main()\<close>. It reads \<^verbatim>\<open>sys.argv\<close>, writes to
  standard output with \<^verbatim>\<open>print\<close>, leaves through \<^verbatim>\<open>sys.exit\<close> and starts a child process
  with \<^verbatim>\<open>subprocess.check_output\<close>. The model makes each of these explicit: the argument
  vector is a parameter, standard output and the list of process launches are fields of a
  state record that is passed through, exceptions are values, and the operating system's
  answer to a launch is a parameter.

  Strings are \<^typ>\<open>string\<close>; a character is a code point below 256.
\<close>

subsection \<open>Exceptions and results\<close>

text \<open>
  The exceptions the script can raise: \<^verbatim>\<open>sys.exit(arg)\<close> raises \<^verbatim>\<open>SystemExit\<close>, unpacking a
  sequence of the wrong length raises \<^verbatim>\<open>ValueError\<close>, \<^verbatim>\<open>check_output\<close> raises \<^verbatim>\<open>OSError\<close>
  (\<^verbatim>\<open>FileNotFoundError\<close>, \<^verbatim>\<open>PermissionError\<close>) when the program cannot be executed and
  \<^verbatim>\<open>CalledProcessError\<close> with the return code when the child's return code is not zero.
\<close>

datatype py_exception =
    SystemExit "int option"
  | ValueError
  | OSError
  | CalledProcessError int

text \<open>
  A call returns a value, raises, or never returns (\<open>Diverge\<close>: \<^verbatim>\<open>check_output\<close> has no
  timeout and waits for its child for ever).
\<close>

datatype 'a result = Return 'a | Raise py_exception | Diverge

subsection \<open>The process's effects\<close>

text \<open>
  \<open>stdout\<close> is the text written to standard output so far; \<open>popen_calls\<close> lists the
  argument vectors handed to the operating system for execution, oldest first.
\<close>

record world =
  stdout :: string
  popen_calls :: "string list list"

definition w0 :: world where
  "w0 = \<lparr>stdout = [], popen_calls = []\<rparr>"

text \<open>\<^verbatim>\<open>print(s)\<close> writes \<open>s\<close> and a newline.\<close>

definition print_py :: "string \<Rightarrow> world \<Rightarrow> world" where
  "print_py s w = w\<lparr>stdout := stdout w @ s @ [CHR 0x0A]\<rparr>"

subsection \<open>The operating system and \<^verbatim>\<open>subprocess.check_output\<close>\<close>

text \<open>
  What becomes of an argument vector given to the operating system: the program cannot be
  executed (no such file, or no permission), the child runs and exits with a return code
  and the text it wrote to its standard output, or the child never exits.
\<close>

datatype child = LaunchFailure | Exited int string | NeverExits

type_synonym os = "string list \<Rightarrow> child"

text \<open>
  \<^verbatim>\<open>check_output(args)\<close> starts \<open>args\<close> once, waits for the child, and returns its captured
  output when the return code is 0.
\<close>

definition check_output :: "os \<Rightarrow> string list \<Rightarrow> world \<Rightarrow> string result \<times> world" where
  "check_output os args w =
     (let w' = w\<lparr>popen_calls := popen_calls w @ [args]\<rparr> in
      case os args of
        LaunchFailure \<Rightarrow> (Raise OSError, w')
      | Exited rc out \<Rightarrow> (if rc = 0 then (Return out, w') else (Raise (CalledProcessError rc), w'))
      | NeverExits \<Rightarrow> (Diverge, w'))"

text \<open>
  A stand-in for the external binary that exits with status \<open>rc\<close> whatever its arguments,
  writing nothing.
\<close>

definition stub :: "int \<Rightarrow> os" where
  "stub rc = (\<lambda>args. Exited rc [])"

subsection \<open>\<^verbatim>\<open>str.split()\<close>\<close>

text \<open>
  \<^verbatim>\<open>str.isspace\<close> on the code points below 256: tab, line feed, vertical tab, form feed,
  carriage return, the four separators 0x1C to 0x1F, space, next line (0x85) and
  no-break space (0xA0).
\<close>

definition isspace :: "char \<Rightarrow> bool" where
  "isspace c = (c \<in> set [CHR 0x09, CHR 0x0A, CHR 0x0B, CHR 0x0C, CHR 0x0D,
                           CHR 0x1C, CHR 0x1D, CHR 0x1E, CHR 0x1F, CHR 0x20,
                           CHR 0x85, CHR 0xA0])"

text \<open>
  \<^verbatim>\<open>s.split()\<close> with no separator: the maximal runs of characters that are not white space,
  in order. \<open>split_from word s\<close> scans \<open>s\<close> with \<open>word\<close> the run read so far.
\<close>

fun split_from :: "string \<Rightarrow> string \<Rightarrow> string list" where
  "split_from word [] = (if word = [] then [] else [word])"
| "split_from word (c # cs) =
     (if isspace c then (if word = [] then split_from [] cs else word # split_from [] cs)
      else split_from (word @ [c]) cs)"

definition split_str :: "string \<Rightarrow> string list" where
  "split_str s = split_from [] s"

subsection \<open>The script\<close>

definition basecmd :: string where
  "basecmd = ''/app/bin/linux/selscan''"

definition usage :: string where
  "usage = ''call program as: python adhoc_runxp.py {in_tped1} {out1} {in_tped2} {out2}''"

text \<open>
  The unpacking assignment \<^verbatim>\<open>in_tped1, out_popihh1, in_tped2, out_popihh2 = xs\<close>: it raises
  \<^verbatim>\<open>ValueError\<close> unless \<open>xs\<close> has exactly four elements.
\<close>

fun unpack4 :: "string list \<Rightarrow> (string \<times> string \<times> string \<times> string) result" where
  "unpack4 [a, b, c, d] = Return (a, b, c, d)"
| "unpack4 xs = Raise ValueError"

text \<open>The value of the local variable \<^verbatim>\<open>full_cmd\<close> (line 14).\<close>

definition full_cmd :: "string \<Rightarrow> string \<Rightarrow> string \<Rightarrow> string \<Rightarrow> string" where
  "full_cmd in_tped1 out_popihh1 in_tped2 out_popihh2 =
     basecmd @ '' --xpehh --tped '' @ in_tped1 @ '' --out '' @ out_popihh1 @
     '' --tped-ref '' @ in_tped2 @ '' --out2 '' @ out_popihh2 @
     '' --maf 0.05 --gap-scale 20000 --threads 15 ''"

text \<open>
  \<^verbatim>\<open>main\<close>, with \<^verbatim>\<open>sys.argv\<close> as \<open>argv\<close>. \<^verbatim>\<open>sys.exit()\<close> is \<open>Raise (SystemExit None)\<close>;
  \<^verbatim>\<open>sys.argv[1:]\<close> is \<open>drop 1 argv\<close>; the value \<^verbatim>\<open>check_output\<close> returns is discarded.
\<close>

definition main :: "os \<Rightarrow> string list \<Rightarrow> world \<Rightarrow> unit result \<times> world" where
  "main os argv w =
     (if length argv \<noteq> 5 then (Raise (SystemExit None), print_py usage w)
      else
        case unpack4 (drop 1 argv) of
          Raise e \<Rightarrow> (Raise e, w)
        | Diverge \<Rightarrow> (Diverge, w)
        | Return (in_tped1, out_popihh1, in_tped2, out_popihh2) \<Rightarrow>
            (let w1 = print_py (full_cmd in_tped1 out_popihh1 in_tped2 out_popihh2) w in
             case check_output os (split_str basecmd) w1 of
               (Return out, w2) \<Rightarrow> (Return (), w2)
             | (Raise e, w2) \<Rightarrow> (Raise e, w2)
             | (Diverge, w2) \<Rightarrow> (Diverge, w2)))"

text \<open>
  The exit status of the interpreter after the module-level \<^verbatim>\<open>main()\<close>: 0 when the script
  runs to its end, the argument of \<^verbatim>\<open>sys.exit\<close> (0 when there is none), 1 for any other
  uncaught exception, and none while the script has not finished.
\<close>

fun exit_status :: "unit result \<Rightarrow> int option" where
  "exit_status (Return u) = Some 0"
| "exit_status (Raise (SystemExit None)) = Some 0"
| "exit_status (Raise (SystemExit (Some n))) = Some n"
| "exit_status (Raise e) = Some 1"
| "exit_status Diverge = None"

subsection \<open>The command line of section 6 of the specification\<close>

text \<open>
  The token sequence the specification gives for the external tool, for a binary path and
  the four arguments:
  \<^verbatim>\<open><binary> --xpehh --tped <in_tped_1> --out <out_1> --tped-ref <in_tped_2> --out2 <out_2> --maf 0.05 --gap-scale 20000 --threads 15\<close>
\<close>

definition spec_tokens :: "string \<Rightarrow> string \<Rightarrow> string \<Rightarrow> string \<Rightarrow> string \<Rightarrow> string list" where
  "spec_tokens binary in_tped_1 out_1 in_tped_2 out_2 =
     [binary, ''--xpehh'', ''--tped'', in_tped_1, ''--out'', out_1,
      ''--tped-ref'', in_tped_2, ''--out2'', out_2,
      ''--maf'', ''0.05'', ''--gap-scale'', ''20000'', ''--threads'', ''15'']"

section \<open>Properties\<close>

subsection \<open>Auxiliary facts\<close>

lemma split_basecmd: "split_str basecmd = [basecmd]"
  by (simp add: split_str_def basecmd_def isspace_def)

lemma main_five:
  "main os [p, a, b, c, d] w =
     (case check_output os [basecmd] (print_py (full_cmd a b c d) w) of
        (Return out, w2) \<Rightarrow> (Return (), w2)
      | (Raise e, w2) \<Rightarrow> (Raise e, w2)
      | (Diverge, w2) \<Rightarrow> (Diverge, w2))"
  by (simp add: main_def split_basecmd)

lemma length_five: "length xs = 5 \<Longrightarrow> \<exists>p a b c d. xs = [p, a, b, c, d]"
  by (auto simp: length_Suc_conv eval_nat_numeral)

lemma main_usage:
  "length argv \<noteq> 5 \<Longrightarrow> main os argv w = (Raise (SystemExit None), print_py usage w)"
  by (simp add: main_def)

lemma main_five_stdout:
  "stdout (snd (main os [p, a, b, c, d] w)) = stdout w @ full_cmd a b c d @ [CHR 0x0A]"
  by (simp add: main_five check_output_def Let_def print_py_def split: child.splits)

lemma main_five_calls:
  "popen_calls (snd (main os [p, a, b, c, d] w)) = popen_calls w @ [[basecmd]]"
  by (simp add: main_five check_output_def Let_def print_py_def split: child.splits)

lemma main_five_result:
  "fst (main os [p, a, b, c, d] w) =
     (case os [basecmd] of
        LaunchFailure \<Rightarrow> Raise OSError
      | Exited rc out \<Rightarrow> if rc = 0 then Return () else Raise (CalledProcessError rc)
      | NeverExits \<Rightarrow> Diverge)"
  by (simp add: main_five check_output_def Let_def split: child.splits)

text \<open>A run of characters without white space is read as part of one word.\<close>

lemma split_from_word:
  "list_all (\<lambda>c. \<not> isspace c) u \<Longrightarrow> split_from word (u @ rest) = split_from (word @ u) rest"
  by (induction u arbitrary: word) simp_all

subsection \<open>The child process is started without the constructed arguments\<close>

text \<open>
  Claim C1 says that with four positional arguments the external binary is started with
  the full constructed argument list. The script builds and prints \<^verbatim>\<open>full_cmd\<close> but passes
  \<^verbatim>\<open>basecmd.split()\<close> to \<^verbatim>\<open>check_output\<close>: at the arguments of the specification's example
  the only launch is of the bare binary path, which is not the specification's token list.
\<close>

theorem C1_bare_launch:
  "popen_calls (snd (main os [''adhoc_runxp.py'', ''tped_pop1.txt'', ''out1'', ''tped_pop2.txt'', ''out2''] w0))
     = [[''/app/bin/linux/selscan'']]
   \<and> popen_calls (snd (main os [''adhoc_runxp.py'', ''tped_pop1.txt'', ''out1'', ''tped_pop2.txt'', ''out2''] w0))
     \<noteq> [spec_tokens basecmd ''tped_pop1.txt'' ''out1'' ''tped_pop2.txt'' ''out2'']"
  by (simp add: main_five_calls w0_def basecmd_def spec_tokens_def)

subsection \<open>A wrong argument count\<close>

text \<open>
  Claim C2: whenever the number of positional arguments is not four (\<^verbatim>\<open>len(sys.argv) != 5\<close>),
  the script ends through \<^verbatim>\<open>sys.exit()\<close>, having printed the usage message to standard
  output and started no child process.
\<close>

theorem C2_usage_error:
  assumes "length argv \<noteq> 5"
  shows "fst (main os argv w) = Raise (SystemExit None)
       \<and> stdout (snd (main os argv w)) = stdout w @ usage @ [CHR 0x0A]
       \<and> popen_calls (snd (main os argv w)) = popen_calls w"
  using assms by (simp add: main_usage print_py_def)

theorem C2_usage_error_witness:
  "length [''adhoc_runxp.py'', ''tped_pop1.txt'', ''out1''] \<noteq> 5
   \<and> fst (main (stub 0) [''adhoc_runxp.py'', ''tped_pop1.txt'', ''out1''] w0) = Raise (SystemExit None)
   \<and> stdout (snd (main (stub 0) [''adhoc_runxp.py'', ''tped_pop1.txt'', ''out1''] w0))
       = ''call program as: python adhoc_runxp.py {in_tped1} {out1} {in_tped2} {out2}'' @ [CHR 0x0A]
   \<and> popen_calls (snd (main (stub 0) [''adhoc_runxp.py'', ''tped_pop1.txt'', ''out1''] w0)) = []"
  using C2_usage_error [of "[''adhoc_runxp.py'', ''tped_pop1.txt'', ''out1'']" "stub 0" w0]
  by (simp add: w0_def usage_def)

text \<open>
  Claim C3 as stated (a non-zero exit code on a wrong argument count) fails: with three
  positional arguments the exit status is 0.
\<close>

theorem C3_exit_status_counterexample:
  "exit_status (fst (main (stub 0) [''adhoc_runxp.py'', ''tped_pop1.txt'', ''out1'', ''tped_pop2.txt''] w0)) = Some 0"
  by (simp add: main_usage)

text \<open>
  Claim C3, amended: whenever the number of positional arguments is not four, the process
  terminates with exit status 0 (\<^verbatim>\<open>sys.exit()\<close> is called without an argument), the usage
  message having been printed.
\<close>

theorem C3_usage_exit_status:
  assumes "length argv \<noteq> 5"
  shows "exit_status (fst (main os argv w)) = Some 0
       \<and> stdout (snd (main os argv w)) = stdout w @ usage @ [CHR 0x0A]"
  using assms by (simp add: main_usage print_py_def)

theorem C3_usage_exit_status_witness:
  "length ([] :: string list) \<noteq> 5
   \<and> exit_status (fst (main (stub 3) [] w0)) = Some 0
   \<and> stdout (snd (main (stub 3) [] w0)) = usage @ [CHR 0x0A]"
  using C3_usage_exit_status [of "[]" "stub 3" w0]
  by (simp add: w0_def)

subsection \<open>The printed command\<close>

text \<open>
  Claim C4 as stated (the printed command equals the template with no extra trailing
  character) fails: the constructed string, and so the printed text with or without the
  newline of \<^verbatim>\<open>print\<close>, is not the template.
\<close>

theorem C4_printed_command_counterexample:
  "full_cmd ''tped_pop1.txt'' ''out1'' ''tped_pop2.txt'' ''out2''
     \<noteq> ''/app/bin/linux/selscan --xpehh --tped tped_pop1.txt --out out1 --tped-ref tped_pop2.txt --out2 out2 --maf 0.05 --gap-scale 20000 --threads 15''
   \<and> stdout (snd (main (stub 0) [''adhoc_runxp.py'', ''tped_pop1.txt'', ''out1'', ''tped_pop2.txt'', ''out2''] w0))
     \<noteq> ''/app/bin/linux/selscan --xpehh --tped tped_pop1.txt --out out1 --tped-ref tped_pop2.txt --out2 out2 --maf 0.05 --gap-scale 20000 --threads 15''
   \<and> stdout (snd (main (stub 0) [''adhoc_runxp.py'', ''tped_pop1.txt'', ''out1'', ''tped_pop2.txt'', ''out2''] w0))
     \<noteq> ''/app/bin/linux/selscan --xpehh --tped tped_pop1.txt --out out1 --tped-ref tped_pop2.txt --out2 out2 --maf 0.05 --gap-scale 20000 --threads 15'' @ [CHR 0x0A]"
  by (simp add: main_five_stdout w0_def full_cmd_def basecmd_def)

text \<open>
  Claim C4, amended: for the arguments \<^verbatim>\<open>("tped_pop1.txt", "out1", "tped_pop2.txt", "out2")\<close>
  the text written to standard output is the template followed by one space character,
  and then the newline of \<^verbatim>\<open>print\<close>; nothing precedes it.
\<close>

theorem C4_printed_command:
  "stdout (snd (main os [''adhoc_runxp.py'', ''tped_pop1.txt'', ''out1'', ''tped_pop2.txt'', ''out2''] w0))
     = ''/app/bin/linux/selscan --xpehh --tped tped_pop1.txt --out out1 --tped-ref tped_pop2.txt --out2 out2 --maf 0.05 --gap-scale 20000 --threads 15''
       @ '' '' @ [CHR 0x0A]"
  by (simp add: main_five_stdout w0_def full_cmd_def basecmd_def)

subsection \<open>The constructed command as a token sequence\<close>

text \<open>
  Claim C5 as stated (every four non-empty arguments give the template's token sequence)
  fails: read with \<^verbatim>\<open>str.split()\<close>, as the script reads \<^verbatim>\<open>basecmd\<close>, an argument with a
  space in it becomes two tokens.
\<close>

theorem C5_token_sequence_counterexample:
  "split_str (full_cmd ''pop 1.tped'' ''out1'' ''pop2.tped'' ''out2'')
     \<noteq> spec_tokens basecmd ''pop 1.tped'' ''out1'' ''pop2.tped'' ''out2''"
  by (simp add: split_str_def full_cmd_def spec_tokens_def basecmd_def isspace_def)

text \<open>
  Claim C5, amended: for four arguments that are non-empty and contain no white space,
  the constructed command, read as the sequence of its white-space separated tokens, is the
  fixed template with the four arguments in their positions, in order, the tokens
  \<^verbatim>\<open>--maf 0.05 --gap-scale 20000 --threads 15\<close> closing it.
\<close>

theorem C5_token_sequence:
  assumes "in_tped1 \<noteq> []" and "out_popihh1 \<noteq> []" and "in_tped2 \<noteq> []" and "out_popihh2 \<noteq> []"
    and "list_all (\<lambda>ch. \<not> isspace ch) in_tped1"
    and "list_all (\<lambda>ch. \<not> isspace ch) out_popihh1"
    and "list_all (\<lambda>ch. \<not> isspace ch) in_tped2"
    and "list_all (\<lambda>ch. \<not> isspace ch) out_popihh2"
  shows "split_str (full_cmd in_tped1 out_popihh1 in_tped2 out_popihh2)
           = spec_tokens basecmd in_tped1 out_popihh1 in_tped2 out_popihh2"
  using assms
  by (simp add: split_str_def full_cmd_def spec_tokens_def basecmd_def isspace_def split_from_word)

theorem C5_token_sequence_witness:
  "list_all (\<lambda>s. s \<noteq> [] \<and> list_all (\<lambda>ch. \<not> isspace ch) s)
     [''tped_pop1.txt'', ''out1'', ''tped_pop2.txt'', ''out2'']
   \<and> split_str (full_cmd ''tped_pop1.txt'' ''out1'' ''tped_pop2.txt'' ''out2'')
     = [''/app/bin/linux/selscan'', ''--xpehh'', ''--tped'', ''tped_pop1.txt'', ''--out'', ''out1'',
        ''--tped-ref'', ''tped_pop2.txt'', ''--out2'', ''out2'',
        ''--maf'', ''0.05'', ''--gap-scale'', ''20000'', ''--threads'', ''15'']"
  using C5_token_sequence [of "''tped_pop1.txt''" "''out1''" "''tped_pop2.txt''" "''out2''"]
  by (simp add: isspace_def spec_tokens_def basecmd_def)

subsection \<open>The child's termination status\<close>

text \<open>
  Claim C6: with four positional arguments and an external binary (or a stub in its place)
  that exits with status \<open>rc\<close> however it is called, the script's own exit status is 0
  when \<open>rc\<close> is 0 and non-zero (it is 1, from the uncaught \<^verbatim>\<open>CalledProcessError\<close>)
  when \<open>rc\<close> is not 0.
\<close>

theorem C6_status_propagation:
  assumes "length argv = 5"
    and "\<And>args. os (basecmd # args) = Exited rc (out args)"
  shows "exit_status (fst (main os argv w)) = Some (if rc = 0 then 0 else 1)"
proof -
  from assms(1) obtain p a b c d where argv: "argv = [p, a, b, c, d]"
    using length_five by blast
  have "os [basecmd] = Exited rc (out [])"
    by (rule assms(2))
  then show ?thesis
    by (simp add: argv main_five_result)
qed

theorem C6_status_propagation_witness:
  "exit_status (fst (main (stub 0) [''adhoc_runxp.py'', ''tped_pop1.txt'', ''out1'', ''tped_pop2.txt'', ''out2''] w0)) = Some 0
   \<and> exit_status (fst (main (stub 3) [''adhoc_runxp.py'', ''tped_pop1.txt'', ''out1'', ''tped_pop2.txt'', ''out2''] w0)) = Some 1"
  using
    C6_status_propagation [where os = "stub 0" and rc = 0 and out = "\<lambda>args. []" and w = w0
      and argv = "[''adhoc_runxp.py'', ''tped_pop1.txt'', ''out1'', ''tped_pop2.txt'', ''out2'']"]
    C6_status_propagation [where os = "stub 3" and rc = 3 and out = "\<lambda>args. []" and w = w0
      and argv = "[''adhoc_runxp.py'', ''tped_pop1.txt'', ''out1'', ''tped_pop2.txt'', ''out2'']"]
  by (simp add: stub_def)

subsection \<open>A binary that cannot be executed\<close>

text \<open>
  Claim C7: with four positional arguments, when the external binary cannot be executed
  (it does not exist or is not executable), \<^verbatim>\<open>main\<close> ends with the \<^verbatim>\<open>OSError\<close> of the
  launch, uncaught, so the process terminates with status 1; the launch is attempted
  exactly once.
\<close>

theorem C7_launch_failure:
  assumes "length argv = 5"
    and "\<And>args. os (basecmd # args) = LaunchFailure"
  shows "fst (main os argv w) = Raise OSError
       \<and> exit_status (fst (main os argv w)) = Some 1
       \<and> length (popen_calls (snd (main os argv w))) = Suc (length (popen_calls w))"
proof -
  from assms(1) obtain p a b c d where argv: "argv = [p, a, b, c, d]"
    using length_five by blast
  have "os [basecmd] = LaunchFailure"
    by (rule assms(2))
  then show ?thesis
    by (simp add: argv main_five_result main_five_calls)
qed

theorem C7_launch_failure_witness:
  "fst (main (\<lambda>args. LaunchFailure) [''adhoc_runxp.py'', ''tped_pop1.txt'', ''out1'', ''tped_pop2.txt'', ''out2''] w0)
     = Raise OSError
   \<and> exit_status (fst (main (\<lambda>args. LaunchFailure) [''adhoc_runxp.py'', ''tped_pop1.txt'', ''out1'', ''tped_pop2.txt'', ''out2''] w0))
     = Some 1
   \<and> length (popen_calls (snd (main (\<lambda>args. LaunchFailure) [''adhoc_runxp.py'', ''tped_pop1.txt'', ''out1'', ''tped_pop2.txt'', ''out2''] w0)))
     = 1"
  using C7_launch_failure [where os = "\<lambda>args. LaunchFailure" and w = w0
      and argv = "[''adhoc_runxp.py'', ''tped_pop1.txt'', ''out1'', ''tped_pop2.txt'', ''out2'']"]
  by (simp add: w0_def)

subsection \<open>Determinism of the printed command\<close>

text \<open>
  Claim C8: two invocations with the same four arguments write the same text to standard
  output (from equal output so far), whatever the program name in \<^verbatim>\<open>sys.argv[0]\<close>, the
  behaviour of the external binary and the launches made before: the constructed and
  printed command depends on the four arguments only.
\<close>

theorem C8_deterministic_command:
  assumes "length args = 4"
    and "stdout w1 = stdout w2"
  shows "stdout (snd (main os1 (p1 # args) w1)) = stdout (snd (main os2 (p2 # args) w2))"
proof -
  from assms(1) have "length (p1 # args) = 5"
    by simp
  then obtain p a b c d where "p1 # args = [p, a, b, c, d]"
    using length_five by blast
  then have args: "args = [a, b, c, d]"
    by simp
  show ?thesis
    by (simp add: args main_five_stdout assms(2))
qed

theorem C8_deterministic_command_witness:
  "stdout (snd (main (stub 0) [''adhoc_runxp.py'', ''tped_pop1.txt'', ''out1'', ''tped_pop2.txt'', ''out2''] w0))
     = stdout (snd (main (stub 3) [''./adhoc_runxp.py'', ''tped_pop1.txt'', ''out1'', ''tped_pop2.txt'', ''out2'']
                      (w0\<lparr>popen_calls := [[''ls'']]\<rparr>)))"
  using C8_deterministic_command [where args = "[''tped_pop1.txt'', ''out1'', ''tped_pop2.txt'', ''out2'']"
      and ?w1.0 = w0 and ?w2.0 = "w0\<lparr>popen_calls := [[''ls'']]\<rparr>"
      and ?os1.0 = "stub 0" and ?os2.0 = "stub 3"
      and ?p1.0 = "''adhoc_runxp.py''" and ?p2.0 = "''./adhoc_runxp.py''"]
  by simp

subsection \<open>Validation looks at the count only\<close>

text \<open>
  Claim C9: with exactly four positional arguments, whatever they contain (empty strings
  too), the script does not leave through the usage branch: the four arguments are put
  into the command that is printed, and \<^verbatim>\<open>check_output\<close> is reached, which hands one
  argument vector to the operating system.
\<close>

theorem C9_count_only_validation:
  assumes "length argv = 5"
  shows "fst (main os argv w) \<noteq> Raise (SystemExit None)
       \<and> stdout (snd (main os argv w))
           = stdout w @ full_cmd (argv ! 1) (argv ! 2) (argv ! 3) (argv ! 4) @ [CHR 0x0A]
       \<and> popen_calls (snd (main os argv w)) = popen_calls w @ [split_str basecmd]"
proof -
  from assms obtain p a b c d where argv: "argv = [p, a, b, c, d]"
    using length_five by blast
  show ?thesis
    by (simp add: argv main_five_result main_five_stdout main_five_calls split_basecmd
        split: child.splits)
qed

theorem C9_count_only_validation_witness:
  "length [''adhoc_runxp.py'', [], [], [], []] = 5
   \<and> fst (main (stub 0) [''adhoc_runxp.py'', [], [], [], []] w0) \<noteq> Raise (SystemExit None)
   \<and> stdout (snd (main (stub 0) [''adhoc_runxp.py'', [], [], [], []] w0))
       = ''/app/bin/linux/selscan --xpehh --tped  --out  --tped-ref  --out2  --maf 0.05 --gap-scale 20000 --threads 15 ''
         @ [CHR 0x0A]
   \<and> popen_calls (snd (main (stub 0) [''adhoc_runxp.py'', [], [], [], []] w0)) = [[''/app/bin/linux/selscan'']]"
  using C9_count_only_validation [of "[''adhoc_runxp.py'', [], [], [], []]" "stub 0" w0]
  by (simp add: w0_def full_cmd_def basecmd_def split_str_def isspace_def)

subsection \<open>The unpacking assignment\<close>

text \<open>
  Claim C10: once the count check has passed (\<^verbatim>\<open>len(sys.argv) == 5\<close>), unpacking
  \<^verbatim>\<open>sys.argv[1:]\<close> into the four variables succeeds, binding them to the four positional
  arguments in order, and \<^verbatim>\<open>main\<close> does not end with the \<^verbatim>\<open>ValueError\<close> of a failed
  unpacking.
\<close>

theorem C10_unpacking_succeeds:
  assumes "length argv = 5"
  shows "unpack4 (drop 1 argv) = Return (argv ! 1, argv ! 2, argv ! 3, argv ! 4)
       \<and> fst (main os argv w) \<noteq> Raise ValueError"
proof -
  from assms obtain p a b c d where argv: "argv = [p, a, b, c, d]"
    using length_five by blast
  show ?thesis
    by (simp add: argv main_five_result split: child.splits)
qed

theorem C10_unpacking_succeeds_witness:
  "length [''adhoc_runxp.py'', ''tped_pop1.txt'', ''out1'', ''tped_pop2.txt'', ''out2''] = 5
   \<and> unpack4 (drop 1 [''adhoc_runxp.py'', ''tped_pop1.txt'', ''out1'', ''tped_pop2.txt'', ''out2''])
       = Return (''tped_pop1.txt'', ''out1'', ''tped_pop2.txt'', ''out2'')
   \<and> fst (main (\<lambda>args. NeverExits) [''adhoc_runxp.py'', ''tped_pop1.txt'', ''out1'', ''tped_pop2.txt'', ''out2''] w0)
       \<noteq> Raise ValueError"
  using C10_unpacking_succeeds [of "[''adhoc_runxp.py'', ''tped_pop1.txt'', ''out1'', ''tped_pop2.txt'', ''out2'']"
      "\<lambda>args. NeverExits" w0]
  by simp

end
